theory Spec2Isabelle
  imports Complex_Main
begin

section \<open>Text: Python strings as lists of code points\<close>

text \<open>
  A Python \<^verbatim>\<open>str\<close> is a sequence of Unicode code points, so a string is a list of
  naturals here and \<open>str\<close> turns an ASCII literal into one. The three character tables
  of the run time that \<^verbatim>\<open>app.py\<close> relies on are written out:
  \<^item> \<open>isspace\<close> is CPython's whitespace table, the one behind both \<^verbatim>\<open>str.strip()\<close> and
    the regular expression class \<^verbatim>\<open>\s\<close>; it is complete for all of Unicode;
  \<^item> \<open>lower_cp\<close> is the lower-case mapping and \<open>is_word\<close> the class \<^verbatim>\<open>\w\<close>
    (alphanumeric or underscore); both are CPython's tables on U+0000 .. U+00FF, and
    every code point above U+00FF is taken to be caseless and not alphanumeric, which
    is what punctuation and symbols such as U+2019 and U+2014 are.
\<close>

type_synonym pystr = "nat list"

definition str :: "string \<Rightarrow> pystr" where
  "str s = map of_char s"

definition isspace :: "nat \<Rightarrow> bool" where
  "isspace c \<longleftrightarrow>
     (9 \<le> c \<and> c \<le> 13) \<or> (28 \<le> c \<and> c \<le> 32) \<or> c = 133 \<or> c = 160 \<or> c = 5760 \<or>
     (8192 \<le> c \<and> c \<le> 8202) \<or> c = 8232 \<or> c = 8233 \<or> c = 8239 \<or> c = 8287 \<or>
     c = 12288"

definition lower_cp :: "nat \<Rightarrow> nat" where
  "lower_cp c =
     (if (65 \<le> c \<and> c \<le> 90) \<or> (192 \<le> c \<and> c \<le> 214) \<or> (216 \<le> c \<and> c \<le> 222)
      then c + 32 else c)"

definition is_word :: "nat \<Rightarrow> bool" where
  "is_word c \<longleftrightarrow>
     (48 \<le> c \<and> c \<le> 57) \<or> (65 \<le> c \<and> c \<le> 90) \<or> c = 95 \<or> (97 \<le> c \<and> c \<le> 122) \<or>
     c = 170 \<or> c = 178 \<or> c = 179 \<or> c = 181 \<or> c = 185 \<or> c = 186 \<or>
     (188 \<le> c \<and> c \<le> 190) \<or> (192 \<le> c \<and> c \<le> 214) \<or> (216 \<le> c \<and> c \<le> 246) \<or>
     (248 \<le> c \<and> c \<le> 255)"

text \<open>\<^verbatim>\<open>text.lower()\<close>\<close>

definition lower :: "pystr \<Rightarrow> pystr" where
  "lower s = map lower_cp s"

text \<open>\<^verbatim>\<open>text.strip()\<close>: leading and trailing whitespace removed.\<close>

definition lstrip :: "pystr \<Rightarrow> pystr" where
  "lstrip s = dropWhile isspace s"

definition rstrip :: "pystr \<Rightarrow> pystr" where
  "rstrip s = rev (dropWhile isspace (rev s))"

definition strip :: "pystr \<Rightarrow> pystr" where
  "strip s = rstrip (lstrip s)"

text \<open>
  \<^verbatim>\<open>re.sub(r'\s+', ' ', s)\<close>: scanning from the left, every maximal run of whitespace
  is one match of \<^verbatim>\<open>\s+\<close> and is replaced by one space (code point 32).
\<close>

function re_sub_spaces :: "pystr \<Rightarrow> pystr" where
  "re_sub_spaces [] = []"
| "re_sub_spaces (c # cs) =
     (if isspace c then 32 # re_sub_spaces (dropWhile isspace cs)
      else c # re_sub_spaces cs)"
  by pat_completeness auto
termination
  by (relation "measure length") (auto simp: length_dropWhile_le less_Suc_eq_le)

definition preprocess :: "pystr \<Rightarrow> pystr" where
  "preprocess text = re_sub_spaces (strip (lower text))"

section \<open>Configurable constants\<close>

text \<open>
  The constants of \<^verbatim>\<open>app.py\<close>, in the order of the source. Code points outside ASCII
  are written as numbers: 8217 is U+2019 (right single quotation mark), 8212 is U+2014
  (em dash), 8211 is U+2013 (en dash), 39 is the apostrophe.
\<close>

definition CRISIS_KEYWORDS :: "pystr list" where
  "CRISIS_KEYWORDS =
     [str ''suicide'', str ''kill myself'', str ''end my life'', str ''harm myself'',
      str ''want to die'', str ''i can'' @ [39] @ str ''t go on'', str ''i cant go on'']"

text \<open>
  \<^verbatim>\<open>COMMON_KEYWORDS\<close> is a dict; \<^verbatim>\<open>.items()\<close> walks it in insertion order, so it is
  an association list.
\<close>

definition COMMON_KEYWORDS :: "(pystr \<times> pystr list) list" where
  "COMMON_KEYWORDS =
     [(str ''stress'', [str ''stress'', str ''stressed'', str ''overwhelmed'']),
      (str ''anxiety'', [str ''anxious'', str ''anxiety'', str ''panic'', str ''worry'']),
      (str ''depressed'',
         [str ''depress'', str ''sad'', str ''unhappy'', str ''hopeless'', str ''down'']),
      (str ''sleep'', [str ''insomnia'', str ''sleep'', str ''tired'', str ''sleeping'']),
      (str ''exam'', [str ''exam'', str ''test'', str ''interview'', str ''deadline''])]"

definition POSITIVE_RESPONSES :: "pystr list" where
  "POSITIVE_RESPONSES =
     [str ''That'' @ [39] @ str ''s wonderful to hear '' @ [8212] @
        str '' keep that energy going! Anything you want to celebrate?'',
      str ''Awesome! I'' @ [39] @ str ''m glad things are going well. Want to share more?'',
      str ''Great! Celebrating small wins is powerful '' @ [8212] @
        str '' tell me one thing that went well today.'']"

definition NEUTRAL_RESPONSES :: "pystr list" where
  "NEUTRAL_RESPONSES =
     [str ''I see. Tell me a bit more about what'' @ [39] @ str ''s on your mind.'',
      str ''Okay '' @ [8212] @
        str '' would you like a breathing exercise or a quick mood check?'',
      str ''I understand. Want to try a short grounding exercise together?'']"

definition NEGATIVE_RESPONSES :: "pystr list" where
  "NEGATIVE_RESPONSES =
     [str ''I'' @ [39] @ str ''m sorry you'' @ [39] @
        str ''re feeling this way. Would you like a simple breathing exercise or a coping tip?'',
      str ''That sounds tough. I'' @ [39] @ str ''m here for you '' @ [8212] @
        str '' do you want a grounding exercise or a small distraction?'',
      str ''I'' @ [39] @
        str ''m listening. If you want, we can try a 1-minute breathing exercise together.'']"

definition COPING_TIPS :: "pystr list" where
  "COPING_TIPS =
     [str ''Try the 4-4-4 breathing: inhale 4s, hold 4s, exhale 4s. Do this for 1-2 minutes.'',
      str ''Take a short walk, even 5'' @ [8211] @
        str ''10 minutes. Movement can help reset your mood.'',
      str ''Write down 3 things you did well today '' @ [8212] @ str '' little wins matter.'',
      str ''Listen to a calming song you like for 5 minutes or try a guided breathing app.'']"

definition CRISIS_MESSAGE :: pystr where
  "CRISIS_MESSAGE =
     str ''I'' @ [8217] @ str ''m really sorry you'' @ [8217] @
     str ''re feeling this way. If you are in immediate danger or think you might '' @
     str ''harm yourself, please contact your local emergency services right now. '' @
     str ''If you can, reach out to someone you trust or a mental health professional.''"

section \<open>Helper functions: NLP\<close>

text \<open>
  The analyzer \<^verbatim>\<open>sia\<close> is a collaborator outside the repository. It is a parameter
  of the model: the function that maps a text to the \<^verbatim>\<open>'compound'\<close> entry of
  \<^verbatim>\<open>sia.polarity_scores(text)\<close>. A score is the decimal number that the float stands
  for, and the literals 0.05, -0.05 and -0.85 are theirs: the analyzer rounds its score
  to four decimals, and floats that are nearest to decimals of so few digits compare as
  the decimals do.
\<close>

definition sentiment_scores :: "(pystr \<Rightarrow> real) \<Rightarrow> pystr \<Rightarrow> real" where
  "sentiment_scores sia text = sia (preprocess text)"

text \<open>
  \<^verbatim>\<open>\b\<close> at position \<open>p\<close> of \<open>t\<close>: exactly one of the characters before and after
  \<open>p\<close> is a word character, where the start and the end of the string count as
  non-word characters.
\<close>

definition at_boundary :: "pystr \<Rightarrow> nat \<Rightarrow> bool" where
  "at_boundary t p \<longleftrightarrow>
     (0 < p \<and> p \<le> length t \<and> is_word (t ! (p - 1))) \<noteq> (p < length t \<and> is_word (t ! p))"

text \<open>
  \<^verbatim>\<open>re.search(rf'\b{re.escape(kw)}\b', t)\<close>: \<^verbatim>\<open>re.escape\<close> makes the keyword match
  literally, and the search succeeds when the keyword stands at some position with a
  boundary on each side.
\<close>

definition match_at :: "pystr \<Rightarrow> pystr \<Rightarrow> nat \<Rightarrow> bool" where
  "match_at kw t i \<longleftrightarrow>
     at_boundary t i \<and> take (length kw) (drop i t) = kw \<and> at_boundary t (i + length kw)"

definition re_search_word :: "pystr \<Rightarrow> pystr \<Rightarrow> bool" where
  "re_search_word kw t = list_ex (match_at kw t) [0..<Suc (length t)]"

definition contains_crisis :: "pystr \<Rightarrow> bool" where
  "contains_crisis text = (let t = preprocess text in list_ex (\<lambda>kw. re_search_word kw t) CRISIS_KEYWORDS)"

text \<open>Python's \<^verbatim>\<open>w in t\<close> on strings: \<open>w\<close> occurs in \<open>t\<close> at some position.\<close>

definition str_in :: "pystr \<Rightarrow> pystr \<Rightarrow> bool" where
  "str_in w t = list_ex (\<lambda>i. take (length w) (drop i t) = w) [0..<Suc (length t)]"

definition extract_tags :: "pystr \<Rightarrow> pystr list" where
  "extract_tags text =
     (let t = preprocess text
      in map fst (filter (\<lambda>(tag, words). list_ex (\<lambda>w. str_in w t) words) COMMON_KEYWORDS))"

text \<open>
  \<^verbatim>\<open>random\<close> is the second collaborator: a generator is the stream of its future
  draws. \<^verbatim>\<open>random.choice(seq)\<close> raises \<^verbatim>\<open>IndexError\<close> on an empty sequence and
  otherwise returns the element at an index below \<^verbatim>\<open>len(seq)\<close>, using up one draw.
\<close>

datatype error = IndexError | OverflowError

type_synonym rng = "nat \<Rightarrow> nat"

definition choice :: "'a list \<Rightarrow> rng \<Rightarrow> error + ('a \<times> rng)" where
  "choice xs g =
     (if xs = [] then Inl IndexError
      else Inr (xs ! (g 0 mod length xs), \<lambda>n. g (Suc n)))"

definition pick_response :: "pystr \<Rightarrow> rng \<Rightarrow> error + (pystr \<times> rng)" where
  "pick_response sentiment g =
     (if sentiment = str ''positive'' then choice POSITIVE_RESPONSES g
      else if sentiment = str ''neutral'' then choice NEUTRAL_RESPONSES g
      else choice NEGATIVE_RESPONSES g)"

definition get_coping_tip :: "rng \<Rightarrow> error + (pystr \<times> rng)" where
  "get_coping_tip g = choice COPING_TIPS g"

section \<open>Helper functions: database\<close>

text \<open>
  The table \<^verbatim>\<open>messages\<close>: its rows in the order of their insertion, and the counter
  behind \<^verbatim>\<open>AUTOINCREMENT\<close>, the largest id handed out so far. Nothing in
  \<^verbatim>\<open>app.py\<close> updates or deletes a row.
\<close>

record message =
  msg_id :: nat
  msg_user :: pystr
  msg_role :: pystr
  msg_text :: pystr
  msg_compound :: "real option"
  msg_timestamp :: pystr

record database =
  rows :: "message list"
  seq :: nat

text \<open>\<^verbatim>\<open>CREATE TABLE IF NOT EXISTS\<close>: \<open>None\<close> is a database file without the table.\<close>

definition init_db :: "database option \<Rightarrow> database" where
  "init_db file = (case file of None \<Rightarrow> \<lparr>rows = [], seq = 0\<rparr> | Some d \<Rightarrow> d)"

text \<open>
  \<open>now\<close> is the value of \<^verbatim>\<open>datetime.utcnow().isoformat()\<close> that the call reads;
  \<^verbatim>\<open>compound=None\<close> is \<open>None\<close>.
\<close>

definition save_message ::
  "pystr \<Rightarrow> pystr \<Rightarrow> pystr \<Rightarrow> real option \<Rightarrow> pystr \<Rightarrow> database \<Rightarrow> database" where
  "save_message usr role txt compound now d =
     \<lparr>rows = rows d @
        [\<lparr>msg_id = Suc (seq d), msg_user = usr, msg_role = role, msg_text = txt,
          msg_compound = compound, msg_timestamp = now\<rparr>],
      seq = Suc (seq d)\<rparr>"

type_synonym history_row = "pystr \<times> pystr \<times> real option \<times> pystr"

definition select_columns :: "message \<Rightarrow> history_row" where
  "select_columns m = (msg_role m, msg_text m, msg_compound m, msg_timestamp m)"

text \<open>
  The query of \<^verbatim>\<open>get_history\<close>, clause by clause: \<^verbatim>\<open>WHERE user = ?\<close>,
  \<^verbatim>\<open>ORDER BY id DESC\<close>, \<^verbatim>\<open>LIMIT ?\<close>, the four selected columns, and the final
  \<^verbatim>\<open>reversed\<close>. The limit (500 when the caller gives none) is a Python int bound to an
  SQLite parameter: outside the signed 64-bit range the binding raises
  \<^verbatim>\<open>OverflowError\<close>, and SQLite reads a negative \<^verbatim>\<open>LIMIT\<close> as no upper bound on the
  number of rows.
\<close>

definition get_history :: "pystr \<Rightarrow> int \<Rightarrow> database \<Rightarrow> error + history_row list" where
  "get_history usr limit d =
     (if limit < - (2 ^ 63) \<or> 2 ^ 63 \<le> limit then Inl OverflowError
      else
        let selected = filter (\<lambda>m. msg_user m = usr) (rows d);
            ordered = rev (sort_key msg_id selected);
            limited = (if limit < 0 then ordered else take (nat limit) ordered)
        in Inr (rev (map select_columns limited)))"

section \<open>The Send handler\<close>

text \<open>
  What the handler works on: the database, the random generator and the clock (the
  stream of the time stamps that future calls of \<^verbatim>\<open>save_message\<close> will read).
\<close>

record world =
  db :: database
  rng :: rng
  clock :: "nat \<Rightarrow> pystr"

definition save :: "pystr \<Rightarrow> pystr \<Rightarrow> pystr \<Rightarrow> real option \<Rightarrow> world \<Rightarrow> world" where
  "save usr role txt compound w =
     w\<lparr>db := save_message usr role txt compound (clock w 0) (db w),
       clock := \<lambda>n. clock w (Suc n)\<rparr>"

text \<open>Lines 180 to 185, the bucket of a compound score.\<close>

definition sentiment_of :: "real \<Rightarrow> pystr" where
  "sentiment_of compound =
     (if compound \<ge> 0.05 then str ''positive''
      else if compound \<le> - 0.05 then str ''negative''
      else str ''neutral'')"

text \<open>\<^verbatim>\<open>sep.join(xs)\<close>\<close>

fun join :: "pystr \<Rightarrow> pystr list \<Rightarrow> pystr" where
  "join sep [] = []"
| "join sep [x] = x"
| "join sep (x # y # ys) = x @ sep @ join sep (y # ys)"

text \<open>Lines 188 to 193: the template and the one suffix it may get.\<close>

definition reply_text :: "pystr \<Rightarrow> pystr list \<Rightarrow> rng \<Rightarrow> error + (pystr \<times> rng)" where
  "reply_text sentiment tags g =
     (case pick_response sentiment g of
        Inl e \<Rightarrow> Inl e
      | Inr (bot_text, g1) \<Rightarrow>
          if sentiment = str ''negative'' then
            (case get_coping_tip g1 of
               Inl e \<Rightarrow> Inl e
             | Inr (tip, g2) \<Rightarrow> Inr (bot_text @ str '' Tip: '' @ tip, g2))
          else if sentiment = str ''neutral'' \<and> tags \<noteq> [] then
            Inr (bot_text @ str '' I noticed you'' @ [39] @ str ''re talking about '' @
                 join (str '', '') tags @ str ''. Want tips related to that?'', g1)
          else Inr (bot_text, g1))"

text \<open>
  The body of \<^verbatim>\<open>if st.button("Send") and user_input:\<close>, lines 170 to 196. The result
  is the reply shown (or the exception raised) and the world afterwards.
\<close>

definition process_turn ::
  "(pystr \<Rightarrow> real) \<Rightarrow> pystr \<Rightarrow> pystr \<Rightarrow> world \<Rightarrow> (error + pystr) \<times> world" where
  "process_turn sia username user_input w =
     (let compound = sentiment_scores sia user_input;
          w1 = save username (str ''user'') user_input (Some compound) w
      in if contains_crisis user_input \<or> compound \<le> - 0.85 then
           (Inr CRISIS_MESSAGE, save username (str ''bot'') CRISIS_MESSAGE None w1)
         else
           let sentiment = sentiment_of compound;
               tags = extract_tags user_input
           in case reply_text sentiment tags (rng w1) of
                Inl e \<Rightarrow> (Inl e, w1)
              | Inr (bot_text, g) \<Rightarrow>
                  (Inr bot_text, save username (str ''bot'') bot_text None (w1\<lparr>rng := g\<rparr>)))"

text \<open>
  The handler itself: nothing happens unless the button was pressed and the input is
  a non-empty string.
\<close>

definition send_handler ::
  "(pystr \<Rightarrow> real) \<Rightarrow> pystr \<Rightarrow> bool \<Rightarrow> pystr \<Rightarrow> world \<Rightarrow> (error + pystr) option \<times> world" where
  "send_handler sia username button user_input w =
     (if button \<and> user_input \<noteq> [] then
        (let (r, w') = process_turn sia username user_input w in (Some r, w'))
      else (None, w))"

section \<open>Notions used to state the properties\<close>


text \<open>Plain substring containment.\<close>

definition occurs_in :: "pystr \<Rightarrow> pystr \<Rightarrow> bool" where
  "occurs_in w t \<longleftrightarrow> (\<exists>ps ss. t = ps @ w @ ss)"



text \<open>
  A history of the store: the calls of \<^verbatim>\<open>save_message\<close> made since the table was
  created, each with its user, role, text, score and the time stamp it read.
\<close>

type_synonym append_op = "pystr \<times> pystr \<times> pystr \<times> real option \<times> pystr"

definition op_user :: "append_op \<Rightarrow> pystr" where
  "op_user op = fst op"

definition op_row :: "append_op \<Rightarrow> history_row" where
  "op_row op = snd op"

definition apply_append :: "append_op \<Rightarrow> database \<Rightarrow> database" where
  "apply_append op d =
     (case op of (usr, role, txt, compound, now) \<Rightarrow> save_message usr role txt compound now d)"

definition run_appends :: "append_op list \<Rightarrow> database" where
  "run_appends ops = fold apply_append ops (init_db None)"

text \<open>The last \<open>n\<close> elements of a list, in the order of the list.\<close>

definition most_recent :: "nat \<Rightarrow> 'a list \<Rightarrow> 'a list" where
  "most_recent n xs = drop (length xs - n) xs"

text \<open>The invariant of the table: ids grow along the rows and stay below the counter.\<close>

definition ids_ascending :: "database \<Rightarrow> bool" where
  "ids_ascending d \<longleftrightarrow>
     sorted_wrt (<) (map msg_id (rows d)) \<and> list_all (\<lambda>m. msg_id m \<le> seq d) (rows d)"

definition user_rows :: "pystr \<Rightarrow> database \<Rightarrow> history_row list" where
  "user_rows usr d = map select_columns (filter (\<lambda>m. msg_user m = usr) (rows d))"

text \<open>
  A world for the examples: a fresh table, the generator that draws 0, 1, 2, ... and
  the clock that reads "0", "1", "2", ...
\<close>

definition example_world :: world where
  "example_world = \<lparr>db = init_db None, rng = (\<lambda>n. n), clock = (\<lambda>n. [48 + n])\<rparr>"

section \<open>Properties\<close>

subsection \<open>Normalization\<close>

text \<open>
  Lower-casing keeps whitespace whitespace and everything else non-whitespace, so it
  commutes with trimming and with the collapsing of whitespace runs.
\<close>

lemma isspace_lower_cp [simp]: "isspace (lower_cp c) = isspace c"
  unfolding isspace_def lower_cp_def by (cases "c < 256") auto

lemma lower_cp_idem [simp]: "lower_cp (lower_cp c) = lower_cp c"
  unfolding lower_cp_def by auto

lemma lower_cp_space [simp]: "lower_cp 32 = 32"
  by (simp add: lower_cp_def)

lemma isspace_32 [simp]: "isspace 32"
  by (simp add: isspace_def)


































lemma preprocess_empty: "preprocess [] = []"
  by (simp add: preprocess_def lower_def strip_def lstrip_def rstrip_def)

subsection \<open>Keyword matching\<close>

text \<open>
  The two executable scans, \<open>re_search_word\<close> and \<open>str_in\<close>, find what the
  specification calls a whole-word match and a substring.
\<close>

lemma occurs_at_iff:
  "i \<le> length t \<and> take (length w) (drop i t) = w \<longleftrightarrow>
   (\<exists>ps ss. t = ps @ w @ ss \<and> length ps = i)"
proof
  assume a: "i \<le> length t \<and> take (length w) (drop i t) = w"
  have "t = take i t @ drop i t" by simp
  also have "drop i t = take (length w) (drop i t) @ drop (length w) (drop i t)"
    by (rule append_take_drop_id [symmetric])
  finally have "t = take i t @ w @ drop (length w) (drop i t)" using a by simp
  moreover have "length (take i t) = i" using a by simp
  ultimately show "\<exists>ps ss. t = ps @ w @ ss \<and> length ps = i" by blast
next
  assume "\<exists>ps ss. t = ps @ w @ ss \<and> length ps = i"
  then show "i \<le> length t \<and> take (length w) (drop i t) = w" by auto
qed

lemma list_ex_upto: "list_ex P [0..<Suc n] \<longleftrightarrow> (\<exists>i\<le>n. P i)"
  unfolding list_ex_iff by (auto simp del: upt_Suc simp: less_Suc_eq_le)

lemma str_in_iff: "str_in w t \<longleftrightarrow> (\<exists>ps ss. t = ps @ w @ ss)"
proof
  assume "str_in w t"
  then obtain i where "i \<le> length t \<and> take (length w) (drop i t) = w"
    unfolding str_in_def list_ex_upto by blast
  then show "\<exists>ps ss. t = ps @ w @ ss"
    unfolding occurs_at_iff by blast
next
  assume "\<exists>ps ss. t = ps @ w @ ss"
  then obtain ps ss where "t = ps @ w @ ss \<and> length ps = length ps" by blast
  then have "length ps \<le> length t \<and> take (length w) (drop (length ps) t) = w"
    unfolding occurs_at_iff by blast
  then show "str_in w t"
    unfolding str_in_def list_ex_upto by blast
qed

lemma str_in_occurs: "str_in w t = occurs_in w t"
  by (simp add: str_in_iff occurs_in_def)







lemma filter_items_by_key:
  "distinct (map fst xs) \<Longrightarrow>
   map fst (filter (\<lambda>(k, v). P v) xs) =
   filter (\<lambda>k. \<exists>v. (k, v) \<in> set xs \<and> P v) (map fst xs)"
proof (induction xs)
  case Nil
  show ?case by simp
next
  case (Cons kv xs)
  obtain k v where kv: "kv = (k, v)" by (cases kv)
  have fresh: "k \<notin> fst ` set xs" and d: "distinct (map fst xs)"
    using Cons.prems kv by auto
  have tail: "filter (\<lambda>k'. \<exists>v'. (k', v') \<in> set (kv # xs) \<and> P v') (map fst xs)
      = filter (\<lambda>k'. \<exists>v'. (k', v') \<in> set xs \<and> P v') (map fst xs)"
    using fresh kv by (intro filter_cong) (auto simp: image_iff)
  have head: "(\<exists>v'. (k, v') \<in> set (kv # xs) \<and> P v') \<longleftrightarrow> P v"
    using fresh kv by (auto simp: image_iff)
  show ?case
    using Cons.IH [OF d] tail head kv by simp
qed

lemma common_keywords_keys:
  "map fst COMMON_KEYWORDS =
     [str ''stress'', str ''anxiety'', str ''depressed'', str ''sleep'', str ''exam'']"
  by (simp add: COMMON_KEYWORDS_def)

lemma common_keywords_distinct: "distinct (map fst COMMON_KEYWORDS)"
  unfolding common_keywords_keys by (simp add: str_def)

subsection \<open>Sentiment buckets\<close>

lemma bucket_names_distinct:
  "str ''positive'' \<noteq> str ''negative''"
  "str ''positive'' \<noteq> str ''neutral''"
  "str ''negative'' \<noteq> str ''neutral''"
  by (simp_all add: str_def)

lemma sentiment_of_cases:
  "sentiment_of c = str ''positive'' \<or> sentiment_of c = str ''neutral'' \<or>
   sentiment_of c = str ''negative''"
  by (simp add: sentiment_of_def)

subsection \<open>The reply\<close>

lemma choice_nonempty:
  "xs \<noteq> [] \<Longrightarrow> choice xs g = Inr (xs ! (g 0 mod length xs), \<lambda>n. g (Suc n))"
  by (simp add: choice_def)

lemma pools_nonempty:
  "POSITIVE_RESPONSES \<noteq> []" "NEUTRAL_RESPONSES \<noteq> []" "NEGATIVE_RESPONSES \<noteq> []"
  "COPING_TIPS \<noteq> []"
  by (simp_all add: POSITIVE_RESPONSES_def NEUTRAL_RESPONSES_def NEGATIVE_RESPONSES_def
      COPING_TIPS_def)

lemma reply_text_negative:
  "reply_text (str ''negative'') tags g =
     Inr (NEGATIVE_RESPONSES ! (g 0 mod length NEGATIVE_RESPONSES) @ str '' Tip: '' @
          COPING_TIPS ! (g 1 mod length COPING_TIPS), \<lambda>n. g (Suc (Suc n)))"
  using bucket_names_distinct
  by (simp add: reply_text_def pick_response_def get_coping_tip_def choice_nonempty pools_nonempty)

lemma reply_text_neutral:
  "reply_text (str ''neutral'') tags g =
     Inr (if tags \<noteq> [] then
            NEUTRAL_RESPONSES ! (g 0 mod length NEUTRAL_RESPONSES) @
            str '' I noticed you'' @ [39] @ str ''re talking about '' @
            join (str '', '') tags @ str ''. Want tips related to that?''
          else NEUTRAL_RESPONSES ! (g 0 mod length NEUTRAL_RESPONSES), \<lambda>n. g (Suc n))"
  using bucket_names_distinct bucket_names_distinct [symmetric]
  by (simp add: reply_text_def pick_response_def choice_nonempty pools_nonempty)

lemma reply_text_positive:
  "reply_text (str ''positive'') tags g =
     Inr (POSITIVE_RESPONSES ! (g 0 mod length POSITIVE_RESPONSES), \<lambda>n. g (Suc n))"
  using bucket_names_distinct
  by (simp add: reply_text_def pick_response_def choice_nonempty pools_nonempty)

lemma reply_text_total: "\<exists>r g'. reply_text (sentiment_of c) tags g = Inr (r, g')"
  using sentiment_of_cases [of c] reply_text_negative reply_text_neutral reply_text_positive
  by metis

subsection \<open>One turn of the handler\<close>

lemma rng_save [simp]: "rng (save usr role txt compound w) = rng w"
  by (simp add: save_def)

lemma clock_save [simp]: "clock (save usr role txt compound w) = (\<lambda>n. clock w (Suc n))"
  by (simp add: save_def)

lemma db_save [simp]:
  "db (save usr role txt compound w) = save_message usr role txt compound (clock w 0) (db w)"
  by (simp add: save_def)

lemma process_turn_crisis:
  assumes "contains_crisis text \<or> sentiment_scores sia text \<le> - 0.85"
  shows "process_turn sia u text w =
    (Inr CRISIS_MESSAGE,
     save u (str ''bot'') CRISIS_MESSAGE None
       (save u (str ''user'') text (Some (sentiment_scores sia text)) w))"
  using assms by (simp add: process_turn_def Let_def)

lemma process_turn_normal:
  assumes "\<not> contains_crisis text" "\<not> sentiment_scores sia text \<le> - 0.85"
    and "reply_text (sentiment_of (sentiment_scores sia text)) (extract_tags text) (rng w) = Inr (r, g)"
  shows "process_turn sia u text w =
    (Inr r,
     save u (str ''bot'') r None
       ((save u (str ''user'') text (Some (sentiment_scores sia text)) w)\<lparr>rng := g\<rparr>))"
  using assms by (simp add: process_turn_def Let_def)

lemma process_turn_shape:
  "\<exists>r g. process_turn sia u text w =
    (Inr r,
     save u (str ''bot'') r None
       ((save u (str ''user'') text (Some (sentiment_scores sia text)) w)\<lparr>rng := g\<rparr>))"
proof (cases "contains_crisis text \<or> sentiment_scores sia text \<le> - 0.85")
  case True
  have "(save u (str ''user'') text (Some (sentiment_scores sia text)) w)\<lparr>rng := rng w\<rparr>
        = save u (str ''user'') text (Some (sentiment_scores sia text)) w"
    by (simp add: save_def)
  with process_turn_crisis [OF True] show ?thesis by metis
next
  case False
  obtain r g where "reply_text (sentiment_of (sentiment_scores sia text)) (extract_tags text) (rng w) = Inr (r, g)"
    using reply_text_total by blast
  with False process_turn_normal show ?thesis by blast
qed

subsection \<open>The conversation store\<close>

lemma ids_ascending_init: "ids_ascending (init_db None)"
  by (simp add: ids_ascending_def init_db_def)

lemma ids_ascending_save:
  "ids_ascending d \<Longrightarrow> ids_ascending (save_message usr role txt compound now d)"
  by (auto simp: ids_ascending_def save_message_def sorted_wrt_append list_all_iff
      intro: le_SucI)

lemma ids_ascending_apply: "ids_ascending d \<Longrightarrow> ids_ascending (apply_append op d)"
  by (cases op) (simp add: apply_append_def ids_ascending_save)

lemma ids_ascending_fold: "ids_ascending d \<Longrightarrow> ids_ascending (fold apply_append ops d)"
  by (induction ops arbitrary: d) (simp_all add: ids_ascending_apply)

lemma ids_ascending_run: "ids_ascending (run_appends ops)"
  unfolding run_appends_def by (rule ids_ascending_fold) (rule ids_ascending_init)

lemma order_by_id_desc:
  assumes "ids_ascending d"
  shows "rev (sort_key msg_id (filter P (rows d))) = rev (filter P (rows d))"
proof -
  have "sorted (map msg_id (rows d))"
    using assms by (simp add: ids_ascending_def strict_sorted_imp_sorted)
  then have "sorted (map msg_id (filter P (rows d)))" by (rule sorted_filter)
  then show ?thesis by (simp add: sort_key_id_if_sorted)
qed

lemma rev_take_rev: "rev (take n (rev xs)) = most_recent n xs"
  by (simp add: rev_take most_recent_def)

lemma get_history_ascending:
  assumes "ids_ascending d"
  shows "get_history usr limit d =
    (if limit < - (2 ^ 63) \<or> 2 ^ 63 \<le> limit then Inl OverflowError
     else if limit < 0 then Inr (user_rows usr d)
     else Inr (most_recent (nat limit) (user_rows usr d)))"
proof -
  let ?sel = "filter (\<lambda>m. msg_user m = usr) (rows d)"
  have o: "rev (sort_key msg_id ?sel) = rev ?sel"
    using assms by (rule order_by_id_desc)
  have "rev (map select_columns (take n (rev ?sel))) = most_recent n (user_rows usr d)" for n
  proof -
    have "rev (map select_columns (take n (rev ?sel)))
          = map select_columns (rev (take n (rev ?sel)))"
      by (simp add: rev_map)
    also have "\<dots> = map select_columns (most_recent n ?sel)"
      by (simp only: rev_take_rev)
    also have "\<dots> = most_recent n (user_rows usr d)"
      by (simp add: most_recent_def user_rows_def drop_map)
    finally show ?thesis .
  qed
  moreover have "rev (map select_columns (rev ?sel)) = user_rows usr d"
    by (simp add: rev_map user_rows_def)
  ultimately show ?thesis
    unfolding get_history_def Let_def o by simp
qed

lemma user_rows_save:
  "user_rows usr (save_message u role txt compound now d) =
     user_rows usr d @ (if u = usr then [(role, txt, compound, now)] else [])"
  by (simp add: user_rows_def save_message_def select_columns_def)

lemma user_rows_apply:
  "user_rows usr (apply_append op d) =
     user_rows usr d @ (if op_user op = usr then [op_row op] else [])"
  by (cases op) (simp add: apply_append_def user_rows_save op_user_def op_row_def)

lemma user_rows_fold:
  "user_rows usr (fold apply_append ops d) =
     user_rows usr d @ map op_row (filter (\<lambda>op. op_user op = usr) ops)"
  by (induction ops arbitrary: d) (simp_all add: user_rows_apply)

lemma user_rows_run:
  "user_rows usr (run_appends ops) = map op_row (filter (\<lambda>op. op_user op = usr) ops)"
proof -
  have "user_rows usr (init_db None) = []"
    by (simp add: user_rows_def init_db_def)
  then show ?thesis
    unfolding run_appends_def user_rows_fold by simp
qed

lemma get_history_run:
  "get_history usr limit (run_appends ops) =
    (if limit < - (2 ^ 63) \<or> 2 ^ 63 \<le> limit then Inl OverflowError
     else if limit < 0 then Inr (map op_row (filter (\<lambda>op. op_user op = usr) ops))
     else Inr (most_recent (nat limit) (map op_row (filter (\<lambda>op. op_user op = usr) ops))))"
  using get_history_ascending [OF ids_ascending_run] by (simp add: user_rows_run)

lemma get_history_out_of_range:
  "limit < - (2 ^ 63) \<or> 2 ^ 63 \<le> limit \<Longrightarrow> get_history usr limit d = Inl OverflowError"
  by (simp add: get_history_def)

lemma run_appends_snoc:
  "save_message usr role txt compound now (run_appends ops) =
     run_appends (ops @ [(usr, role, txt, compound, now)])"
  by (simp add: run_appends_def apply_append_def)

subsection \<open>Examples\<close>




lemma preprocess_example_spec:
  "preprocess (str ''I feel so stressed about my exam tomorrow'')
     = str ''i feel so stressed about my exam tomorrow''"
  by (simp add: preprocess_def str_def lower_def strip_def lstrip_def rstrip_def lower_cp_def
      isspace_def)

lemma preprocess_example_sadly: "preprocess (str ''Sadly  no'') = str ''sadly no''"
  by (simp add: preprocess_def str_def lower_def strip_def lstrip_def rstrip_def lower_cp_def
      isspace_def)



lemma no_crisis_empty: "\<not> contains_crisis []"
  unfolding contains_crisis_def preprocess_empty Let_def
  by (simp add: CRISIS_KEYWORDS_def re_search_word_def match_at_def at_boundary_def str_def)


lemma tags_empty: "extract_tags [] = []"
  unfolding extract_tags_def preprocess_empty Let_def
  by (simp add: COMMON_KEYWORDS_def str_in_def str_def)

lemma tags_example_spec:
  "extract_tags (str ''I feel so stressed about my exam tomorrow'') = [str ''stress'', str ''exam'']"
  unfolding extract_tags_def preprocess_example_spec Let_def
  by (simp add: COMMON_KEYWORDS_def str_in_def str_def)

lemma tags_example_substring: "extract_tags (str ''Sadly  no'') = [str ''depressed'']"
  unfolding extract_tags_def preprocess_example_sadly Let_def
  by (simp add: COMMON_KEYWORDS_def str_in_def str_def)

section \<open>The properties of the specification\<close>

subsection \<open>Classifier and responder\<close>



text \<open>
  C2. The bucket of a compound score \<open>s\<close> is "positive" exactly when \<open>s \<ge> 0.05\<close>,
  "negative" exactly when \<open>s \<le> -0.05\<close> and "neutral" exactly in between; the four
  boundary values 0.05, 0.0499, -0.05 and -0.0499 fall as the specification lists them.
  This holds for every real score, so for every score in \<open>[-1, 1]\<close> that does not
  trigger the crisis override.
\<close>

theorem bucket_thresholds:
  "(sentiment_of s = str ''positive'' \<longleftrightarrow> s \<ge> 0.05) \<and>
   (sentiment_of s = str ''negative'' \<longleftrightarrow> s \<le> - 0.05) \<and>
   (sentiment_of s = str ''neutral'' \<longleftrightarrow> - 0.05 < s \<and> s < 0.05) \<and>
   sentiment_of 0.05 = str ''positive'' \<and> sentiment_of 0.0499 = str ''neutral'' \<and>
   sentiment_of (- 0.05) = str ''negative'' \<and> sentiment_of (- 0.0499) = str ''neutral''"
  using bucket_names_distinct by (auto simp: sentiment_of_def)



text \<open>
  C4. Tag extraction returns the topic names in the order of their declaration (stress,
  anxiety, depressed, sleep, exam), and a topic is among them exactly when one of its
  substrings occurs somewhere in the normalized text: plain containment, with no
  condition on the characters around the occurrence.
\<close>

theorem extract_tags_exact:
  "extract_tags text =
     filter (\<lambda>tag. \<exists>ws. (tag, ws) \<in> set COMMON_KEYWORDS \<and>
                         (\<exists>w \<in> set ws. occurs_in w (preprocess text)))
       [str ''stress'', str ''anxiety'', str ''depressed'', str ''sleep'', str ''exam'']"
proof -
  have "extract_tags text =
    map fst (filter (\<lambda>(tag, ws). \<exists>w \<in> set ws. occurs_in w (preprocess text)) COMMON_KEYWORDS)"
    by (simp add: extract_tags_def Let_def list_ex_iff str_in_occurs)
  also have "\<dots> = filter (\<lambda>tag. \<exists>ws. (tag, ws) \<in> set COMMON_KEYWORDS \<and>
                         (\<exists>w \<in> set ws. occurs_in w (preprocess text))) (map fst COMMON_KEYWORDS)"
    using common_keywords_distinct by (rule filter_items_by_key)
  finally show ?thesis unfolding common_keywords_keys .
qed


text \<open>
  C8. Classification is total. The body of the handler yields a reply, never an
  exception, for every input string. On the empty string the normalized text is empty,
  no crisis phrase is found and no tag; with a scorer that gives 0 on the empty text the
  bucket is "neutral" and the reply is a neutral template with nothing appended. (The
  handler itself runs this body only on a non-empty input.)
\<close>

theorem classification_total:
  "(\<exists>reply. fst (process_turn sia username text w) = Inr reply) \<and>
   preprocess [] = [] \<and> \<not> contains_crisis [] \<and> extract_tags [] = [] \<and>
   (sia [] = 0 \<longrightarrow>
      sentiment_scores sia [] = 0 \<and>
      sentiment_of (sentiment_scores sia []) = str ''neutral'' \<and>
      fst (process_turn sia username [] w) =
        Inr (NEUTRAL_RESPONSES ! (rng w 0 mod length NEUTRAL_RESPONSES)))"
proof -
  have total: "\<exists>reply. fst (process_turn sia username text w) = Inr reply"
    using process_turn_shape [of sia username "text" w] by auto
  have empty: "sentiment_scores sia [] = 0 \<and>
      sentiment_of (sentiment_scores sia []) = str ''neutral'' \<and>
      fst (process_turn sia username [] w) =
        Inr (NEUTRAL_RESPONSES ! (rng w 0 mod length NEUTRAL_RESPONSES))" if z: "sia [] = 0"
  proof -
    have s: "sentiment_scores sia [] = 0"
      using z by (simp add: sentiment_scores_def preprocess_empty)
    have b: "sentiment_of (sentiment_scores sia []) = str ''neutral''"
      using s by (simp add: sentiment_of_def)
    have "\<not> sentiment_scores sia [] \<le> - 0.85" using s by simp
    from process_turn_normal [OF no_crisis_empty this, where u = username and w = w]
    show ?thesis using s b reply_text_neutral [of "[]" "rng w"] tags_empty by simp
  qed
  show ?thesis using total empty preprocess_empty no_crisis_empty tags_empty by blast
qed

theorem classification_total_witness:
  "(\<lambda>t. 0 :: real) [] = 0 \<and>
   sentiment_of (sentiment_scores (\<lambda>t. 0) []) = str ''neutral'' \<and>
   fst (process_turn (\<lambda>t. 0) (str ''Guest'') [] example_world) = Inr (NEUTRAL_RESPONSES ! 0) \<and>
   extract_tags [] = []"
proof -
  have i: "rng example_world 0 mod length NEUTRAL_RESPONSES = 0"
    by (simp add: example_world_def)
  have z: "(\<lambda>t. 0 :: real) [] = 0" by simp
  note t = classification_total [of "\<lambda>t. 0" "str ''Guest''" "[]" example_world]
  from t z have "sentiment_of (sentiment_scores (\<lambda>t. 0) []) = str ''neutral''" by blast
  moreover from t z have "fst (process_turn (\<lambda>t. 0) (str ''Guest'') [] example_world) =
      Inr (NEUTRAL_RESPONSES ! (rng example_world 0 mod length NEUTRAL_RESPONSES))" by blast
  moreover from t have "extract_tags [] = []" by blast
  ultimately show ?thesis using i by simp
qed

text \<open>
  C9. A turn appends exactly two rows, in this order: the user row with the text, the
  compound score that was computed and the first time stamp, then the bot row with the
  reply, no score and the second time stamp. This is so on every path, the crisis
  override included, since the user row is written before the crisis check. The handler
  runs a turn when the button was pressed on a non-empty input and does nothing otherwise.
\<close>

theorem turn_appends_two_rows:
  "(\<exists>reply. fst (process_turn sia username text w) = Inr reply \<and>
     rows (db (snd (process_turn sia username text w))) = rows (db w) @
       [\<lparr>msg_id = Suc (seq (db w)), msg_user = username, msg_role = str ''user'',
         msg_text = text, msg_compound = Some (sentiment_scores sia text),
         msg_timestamp = clock w 0\<rparr>,
        \<lparr>msg_id = Suc (Suc (seq (db w))), msg_user = username, msg_role = str ''bot'',
         msg_text = reply, msg_compound = None, msg_timestamp = clock w 1\<rparr>]) \<and>
   length (rows (db (snd (send_handler sia username button text w)))) =
     length (rows (db w)) + (if button \<and> text \<noteq> [] then 2 else 0)"
proof -
  obtain r g where p: "process_turn sia username text w =
    (Inr r, save username (str ''bot'') r None
       ((save username (str ''user'') text (Some (sentiment_scores sia text)) w)\<lparr>rng := g\<rparr>))"
    using process_turn_shape by blast
  then have "fst (process_turn sia username text w) = Inr r \<and>
     rows (db (snd (process_turn sia username text w))) = rows (db w) @
       [\<lparr>msg_id = Suc (seq (db w)), msg_user = username, msg_role = str ''user'',
         msg_text = text, msg_compound = Some (sentiment_scores sia text),
         msg_timestamp = clock w 0\<rparr>,
        \<lparr>msg_id = Suc (Suc (seq (db w))), msg_user = username, msg_role = str ''bot'',
         msg_text = r, msg_compound = None, msg_timestamp = clock w 1\<rparr>]"
    by (simp add: save_def save_message_def)
  moreover have "length (rows (db (snd (send_handler sia username button text w)))) =
     length (rows (db w)) + (if button \<and> text \<noteq> [] then 2 else 0)"
    using p by (simp add: send_handler_def save_def save_message_def)
  ultimately show ?thesis by blast
qed


subsection \<open>Conversation store\<close>

text \<open>
  The cap of C5 does not hold for every limit: a negative limit is no limit. With two
  rows stored for a user, \<^verbatim>\<open>get_history(user, -1)\<close> returns both, which is more than -1
  rows.
\<close>

theorem history_negative_limit_counterexample:
  "get_history (str ''amy'') (- 1)
     (save_message (str ''amy'') (str ''bot'') (str ''hello'') None (str ''t2'')
       (save_message (str ''amy'') (str ''user'') (str ''hi'') (Some 0) (str ''t1'')
         (init_db None)))
   = Inr [(str ''user'', str ''hi'', Some 0, str ''t1''),
          (str ''bot'', str ''hello'', None, str ''t2'')] \<and>
   \<not> int (length [(str ''user'', str ''hi'', Some (0 :: real), str ''t1''),
                   (str ''bot'', str ''hello'', None, str ''t2'')]) \<le> - 1"
  by (simp add: get_history_def save_message_def init_db_def select_columns_def str_def)

text \<open>
  C5, for a limit that is not negative. After any sequence of appends to a fresh table,
  and for every limit from 0 up to the largest signed 64-bit integer,
  \<^verbatim>\<open>get_history(user, limit)\<close> returns the last \<open>limit\<close> rows appended for that user (all
  of them when there are fewer), oldest first, so at most \<open>limit\<close> rows; and straight
  after an append, \<^verbatim>\<open>get_history(user, 1)\<close> is exactly the row just appended.
\<close>

theorem history_most_recent:
  assumes "0 \<le> limit" and "limit < 2 ^ 63"
  shows "get_history usr limit (run_appends ops) =
           Inr (most_recent (nat limit) (map op_row (filter (\<lambda>op. op_user op = usr) ops))) \<and>
         length (most_recent (nat limit) (map op_row (filter (\<lambda>op. op_user op = usr) ops)))
           \<le> nat limit \<and>
         get_history usr 1 (save_message usr role txt compound now (run_appends ops)) =
           Inr [(role, txt, compound, now)]"
proof -
  have a: "get_history usr limit (run_appends ops) =
           Inr (most_recent (nat limit) (map op_row (filter (\<lambda>op. op_user op = usr) ops)))"
    using assms by (simp add: get_history_run)
  have b: "length (most_recent (nat limit) (map op_row (filter (\<lambda>op. op_user op = usr) ops)))
           \<le> nat limit"
    by (simp add: most_recent_def)
  have c: "get_history usr 1 (save_message usr role txt compound now (run_appends ops)) =
           Inr [(role, txt, compound, now)]"
    unfolding run_appends_snoc
    by (simp add: get_history_run most_recent_def op_user_def op_row_def)
  show ?thesis using a b c by simp
qed

theorem history_most_recent_witness:
  "(0 :: int) \<le> 2 \<and> (2 :: int) < 2 ^ 63 \<and>
   get_history (str ''amy'') 2
     (run_appends
       [(str ''amy'', str ''user'', str ''one'', Some 0.5, str ''t1''),
        (str ''bob'', str ''user'', str ''two'', Some 0, str ''t2''),
        (str ''amy'', str ''bot'', str ''three'', None, str ''t3''),
        (str ''amy'', str ''user'', str ''four'', Some (- 0.5), str ''t4'')])
   = Inr [(str ''bot'', str ''three'', None, str ''t3''),
          (str ''user'', str ''four'', Some (- 0.5), str ''t4'')]"
proof -
  have b: "(0 :: int) \<le> 2" "(2 :: int) < 2 ^ 63" by simp_all
  have n: "str ''bob'' \<noteq> str ''amy''" by (simp add: str_def)
  show ?thesis
    using history_most_recent [OF b, of "str ''amy''"
        "[(str ''amy'', str ''user'', str ''one'', Some 0.5, str ''t1''),
          (str ''bob'', str ''user'', str ''two'', Some 0, str ''t2''),
          (str ''amy'', str ''bot'', str ''three'', None, str ''t3''),
          (str ''amy'', str ''user'', str ''four'', Some (- 0.5), str ''t4'')]"] n
    by (simp add: most_recent_def op_user_def op_row_def)
qed

text \<open>
  C6. Users are isolated. Whatever the interleaving of appends, the history of a user
  is what it would be had the appends of all other users never happened: no row
  appended under another user is returned, or even counted against the limit.
\<close>

theorem history_user_isolation:
  "get_history usr limit (run_appends ops) =
     get_history usr limit (run_appends (filter (\<lambda>op. op_user op = usr) ops)) \<and>
   (case get_history usr limit (run_appends ops) of
      Inl e \<Rightarrow> True
    | Inr hist \<Rightarrow> set hist \<subseteq> set (map op_row (filter (\<lambda>op. op_user op = usr) ops)))"
proof -
  let ?mine = "map op_row (filter (\<lambda>op. op_user op = usr) ops)"
  have "set (most_recent (nat limit) ?mine) \<subseteq> set ?mine"
    unfolding most_recent_def by (rule set_drop_subset)
  then show ?thesis
    by (simp add: get_history_run del: set_map set_filter)
qed

theorem history_user_isolation_witness:
  "str ''amy'' \<noteq> str ''bob'' \<and>
   get_history (str ''bob'') 500
     (run_appends
       [(str ''amy'', str ''user'', str ''one'', Some 0.5, str ''t1''),
        (str ''bob'', str ''user'', str ''two'', Some 0, str ''t2''),
        (str ''amy'', str ''bot'', str ''three'', None, str ''t3''),
        (str ''bob'', str ''bot'', str ''four'', None, str ''t4'')])
   = get_history (str ''bob'') 500
     (run_appends
       [(str ''bob'', str ''user'', str ''two'', Some 0, str ''t2''),
        (str ''bob'', str ''bot'', str ''four'', None, str ''t4'')])"
proof -
  have n: "str ''amy'' \<noteq> str ''bob''" by (simp add: str_def)
  show ?thesis
    using history_user_isolation [of "str ''bob''" 500
        "[(str ''amy'', str ''user'', str ''one'', Some 0.5, str ''t1''),
          (str ''bob'', str ''user'', str ''two'', Some 0, str ''t2''),
          (str ''amy'', str ''bot'', str ''three'', None, str ''t3''),
          (str ''bob'', str ''bot'', str ''four'', None, str ''t4'')]"] n
    by (simp add: op_user_def)
qed

end
